theory Spec2Isabelle
  imports Complex_Main
begin

section \<open>Python values used by convert.py\<close>

text \<open>
  The script handles text, \<open>None\<close>, integers and one floating-point number (the stream
  length in seconds). Text is a \<open>string\<close>; a dictionary value is \<open>None\<close> or text.
  A float is either a finite number, whose exact value is a real, or one of the three
  non-finite values, on which \<open>int()\<close> raises. A seconds value is a finite number; the
  non-finite floats are there so that the raise is a branch of the model.
\<close>

datatype pyval = PyNone | PyStr string

datatype pyfloat = Finite real | PosInf | NegInf | NaN

datatype exn = ValueError string | OverflowError string | DecodeError string

text \<open>\<open>str(e)\<close> of an exception is its message.\<close>

fun str_exn :: "exn \<Rightarrow> string" where
  "str_exn (ValueError m) = m"
| "str_exn (OverflowError m) = m"
| "str_exn (DecodeError m) = m"

text \<open>\<open>int(x)\<close> on a float truncates towards zero and raises on a non-finite value.\<close>

definition trunc :: "real \<Rightarrow> int" where
  "trunc x = (if 0 \<le> x then \<lfloor>x\<rfloor> else \<lceil>x\<rceil>)"

fun py_int :: "pyfloat \<Rightarrow> exn + int" where
  "py_int (Finite x) = Inr (trunc x)"
| "py_int NaN = Inl (ValueError ''cannot convert float NaN to integer'')"
| "py_int PosInf = Inl (OverflowError ''cannot convert float infinity to integer'')"
| "py_int NegInf = Inl (OverflowError ''cannot convert float infinity to integer'')"

subsection \<open>Decimal rendering and the format specifications\<close>

definition digit_char :: "nat \<Rightarrow> char" where
  "digit_char d = ''0123456789'' ! d"

function str_nat :: "nat \<Rightarrow> string" where
  "str_nat n = (if n < 10 then [digit_char n] else str_nat (n div 10) @ [digit_char (n mod 10)])"
  by pat_completeness auto
termination
  by (relation "measure id") auto

declare str_nat.simps [simp del]

definition zero_pad :: "nat \<Rightarrow> string \<Rightarrow> string" where
  "zero_pad w s = replicate (w - length s) (CHR ''0'') @ s"

text \<open>
  The format specification \<open>02\<close> on an integer: decimal digits, filled with zeros after
  the sign up to a total width of two characters.
\<close>

definition format_02 :: "int \<Rightarrow> string" where
  "format_02 i = (if i < 0 then CHR ''-'' # zero_pad 1 (str_nat (nat (- i)))
                  else zero_pad 2 (str_nat (nat i)))"

text \<open>
  The format specification \<open>,\<close> on an integer: decimal digits with a comma between
  groups of three, counted from the right.
\<close>

function group3 :: "nat \<Rightarrow> string" where
  "group3 n = (if n < 1000 then str_nat n
               else group3 (n div 1000) @ CHR '','' # zero_pad 3 (str_nat (n mod 1000)))"
  by pat_completeness auto
termination
  by (relation "measure id") auto

declare group3.simps [simp del]

definition format_comma :: "int \<Rightarrow> string" where
  "format_comma i = (if i < 0 then CHR ''-'' # group3 (nat (- i)) else group3 (nat i))"

subsection \<open>Text operations\<close>

text \<open>
  \<open>str.lower\<close> on the ASCII letters; every other character is left as it is. The
  script lowers a name only to compare its end with \<open>.mp3\<close>, and no character outside
  ASCII is lowered to one of these four.
\<close>

definition lower_char :: "char \<Rightarrow> char" where
  "lower_char c =
     (case map_of (zip ''ABCDEFGHIJKLMNOPQRSTUVWXYZ'' ''abcdefghijklmnopqrstuvwxyz'') c of
        Some l \<Rightarrow> l
      | None \<Rightarrow> c)"

definition lower :: "string \<Rightarrow> string" where
  "lower s = map lower_char s"

definition endswith :: "string \<Rightarrow> string \<Rightarrow> bool" where
  "endswith s suf = (length suf \<le> length s \<and> drop (length s - length suf) s = suf)"

text \<open>\<open>os.path.join\<close> of two components on a POSIX system.\<close>

definition path_join :: "string \<Rightarrow> string \<Rightarrow> string" where
  "path_join a b =
     (if b \<noteq> [] \<and> hd b = CHR ''/'' then b
      else if a = [] \<or> last a = CHR ''/'' then a @ b
      else a @ CHR ''/'' # b)"

subsection \<open>Dictionaries with insertion order\<close>

text \<open>
  A Python dictionary keeps its keys in insertion order, and the serializer is asked to
  keep that order, so a record is an association list. Assigning to a key that is present
  replaces the value in place; assigning to a new key appends it.
\<close>

type_synonym pydict = "(string \<times> pyval) list"

fun dict_set :: "pydict \<Rightarrow> string \<Rightarrow> pyval \<Rightarrow> pydict" where
  "dict_set [] k v = [(k, v)]"
| "dict_set ((k', v') # d) k v = (if k' = k then (k, v) # d else (k', v') # dict_set d k v)"

definition dict_get :: "pydict \<Rightarrow> string \<Rightarrow> pyval option" where
  "dict_get d k = map_of d k"

definition keys :: "pydict \<Rightarrow> string list" where
  "keys d = map fst d"

section \<open>The environment of a run\<close>

text \<open>
  A directory entry is a regular file with its size in bytes, a directory with its own
  entries, or something else (a socket, a dangling link). The input directory is given
  as \<open>None\<close> when the path does not exist and as its listing, in listing order, when it
  does; the path is taken to name a directory whenever it exists.
\<close>

datatype node = File nat | Dir "(string \<times> node) list" | Special

text \<open>
  What the tag decoder hands back. A frame carries a list of text entries; a frame
  object itself counts as true. The tag container has at most one title frame
  (\<open>audio.get('TIT2')\<close>) and a list of comment frames (\<open>audio.getall('COMM')\<close>). The
  audio view is an object of the decoder library with a truth value of its own, which
  the script tests, and optional stream information with the length in seconds.
\<close>

record frame =
  frame_text :: "string list"

record id3_tags =
  TIT2 :: "frame option"
  COMM :: "frame list"

record mp3_info =
  info_length :: pyfloat

record mp3_audio =
  truthy :: bool
  info :: "mp3_info option"

text \<open>
  The names \<open>ID3\<close>, \<open>MP3\<close> and \<open>yaml\<close> are \<open>None\<close> when the import failed. A decoder
  applied to a path raises or returns its view of the file.
\<close>

record env =
  ID3 :: "(string \<Rightarrow> exn + id3_tags) option"
  MP3 :: "(string \<Rightarrow> exn + mp3_audio) option"
  yaml :: bool
  listing :: "string \<Rightarrow> (string \<times> node) list option"

section \<open>The scanner: \<open>get_mp3_files\<close>\<close>

record candidate =
  path :: string
  filename :: string
  size_bytes :: int

text \<open>\<open>os.path.isfile\<close> holds of a regular file only.\<close>

fun isfile :: "node \<Rightarrow> bool" where
  "isfile (File sz) = True"
| "isfile (Dir es) = False"
| "isfile Special = False"

text \<open>
  The loop over the listing. \<open>file_path\<close> names the entry beside it, so
  \<open>os.path.isfile(file_path)\<close> and \<open>os.path.getsize(file_path)\<close> read that entry:
  the first equation with a body is the branch taken for a regular file, the last one
  the branch for everything else. Entries below a subdirectory are never looked at.
\<close>

fun scan_entries :: "string \<Rightarrow> (string \<times> node) list \<Rightarrow> candidate list" where
  "scan_entries directory [] = []"
| "scan_entries directory ((name, File sz) # es) =
     (let file_path = path_join directory name in
      if endswith (lower name) ''.mp3''
      then \<lparr>path = file_path, filename = ''/audio/'' @ name, size_bytes = int sz\<rparr>
             # scan_entries directory es
      else scan_entries directory es)"
| "scan_entries directory ((name, nd) # es) = scan_entries directory es"

definition get_mp3_files :: "env \<Rightarrow> string \<Rightarrow> candidate list" where
  "get_mp3_files e directory =
     (case listing e directory of
        None \<Rightarrow> []
      | Some es \<Rightarrow> scan_entries directory es)"

section \<open>The extractor: \<open>format_duration\<close> and \<open>get_title_and_comments\<close>\<close>

definition format_duration :: "pyfloat option \<Rightarrow> exn + string option" where
  "format_duration seconds =
     (case seconds of
        None \<Rightarrow> Inr None
      | Some s \<Rightarrow>
          (case py_int s of
             Inl err \<Rightarrow> Inl err
           | Inr n \<Rightarrow>
               (let hours = n div 3600;
                    minutes = (n mod 3600) div 60;
                    secs = n mod 60
                in Inr (Some (format_02 hours @ '':'' @ format_02 minutes @ '':''
                                @ format_02 secs)))))"

definition opt_str :: "string option \<Rightarrow> pyval" where
  "opt_str x = (case x of None \<Rightarrow> PyNone | Some s \<Rightarrow> PyStr s)"

text \<open>The three expressions of the \<open>try\<close> block that read the decoded views.\<close>

definition title_of :: "id3_tags \<Rightarrow> string option" where
  "title_of audio =
     (case TIT2 audio of
        None \<Rightarrow> None
      | Some title \<Rightarrow> (case frame_text title of [] \<Rightarrow> None | t # ts \<Rightarrow> Some t))"

definition comments_of :: "id3_tags \<Rightarrow> string option" where
  "comments_of audio =
     (case COMM audio of
        [] \<Rightarrow> None
      | fr # frs \<Rightarrow> (case frame_text fr of [] \<Rightarrow> None | t # ts \<Rightarrow> Some t))"

definition duration_of :: "mp3_audio \<Rightarrow> pyfloat option" where
  "duration_of mp3 =
     (if truthy mp3 then (case info mp3 of None \<Rightarrow> None | Some i \<Rightarrow> Some (info_length i))
      else None)"

text \<open>
  The body of the \<open>try\<close> block: either decoder may raise, and so may
  \<open>format_duration\<close>; the first exception ends the block.
\<close>

definition try_block ::
  "(string \<Rightarrow> exn + id3_tags) \<Rightarrow> (string \<Rightarrow> exn + mp3_audio) \<Rightarrow> string \<Rightarrow> exn + pydict" where
  "try_block id3 mp3 mp3_file =
     (case id3 mp3_file of
        Inl err \<Rightarrow> Inl err
      | Inr audio \<Rightarrow>
          (case mp3 mp3_file of
             Inl err \<Rightarrow> Inl err
           | Inr mp3_a \<Rightarrow>
               (let title = title_of audio;
                    comments = comments_of audio;
                    duration = duration_of mp3_a
                in case format_duration duration of
                     Inl err \<Rightarrow> Inl err
                   | Inr d \<Rightarrow>
                       Inr [(''title'', opt_str title),
                            (''description'',
                               (case comments of
                                  None \<Rightarrow> PyNone
                                | Some c \<Rightarrow> if c \<noteq> [] then PyStr c else PyNone)),
                            (''duration'', opt_str d)])))"

definition get_title_and_comments :: "env \<Rightarrow> string \<Rightarrow> pydict" where
  "get_title_and_comments e mp3_file =
     (case (ID3 e, MP3 e) of
        (Some id3, Some mp3) \<Rightarrow>
          (case try_block id3 mp3 mp3_file of
             Inr flds \<Rightarrow> flds
           | Inl err \<Rightarrow>
               [(''file'', PyStr mp3_file), (''title'', PyNone), (''comments'', PyNone),
                (''duration'', PyNone), (''error'', PyStr (str_exn err))])
      | _ \<Rightarrow>
          [(''file'', PyStr mp3_file), (''title'', PyNone), (''comments'', PyNone),
           (''duration'', PyNone), (''error'', PyStr ''mutagen not installed'')])"

section \<open>The main script\<close>

text \<open>
  The serializer is a library; a run records the call it makes to it: the records, the
  two options it passes and the file it writes to.
\<close>

record dump_call =
  data :: "pydict list"
  allow_unicode :: bool
  sort_keys :: bool
  target :: string

record outcome =
  results :: "pydict list"
  document :: "dump_call option"
  console :: string

definition merge_fields :: "env \<Rightarrow> candidate \<Rightarrow> pydict" where
  "merge_fields e mp3_info =
     (let flds = get_title_and_comments e (path mp3_info);
          flds = dict_set flds ''file'' (PyStr (filename mp3_info));
          flds = dict_set flds ''length'' (PyStr (format_comma (size_bytes mp3_info)))
      in flds)"

definition main :: "env \<Rightarrow> outcome" where
  "main e =
     (let mp3_files = get_mp3_files e ''audio'';
          res = map (merge_fields e) mp3_files
      in if yaml e
         then \<lparr>results = res,
               document = Some \<lparr>data = res, allow_unicode = True, sort_keys = False,
                                 target = ''episodes.yml''\<rparr>,
               console = ''YAML written to episodes.yml''\<rparr>
         else \<lparr>results = res,
               document = None,
               console = ''PyYAML is not installed. Please install it with 'pip install pyyaml'.''\<rparr>)"

section \<open>Notions of the specification\<close>

text \<open>
  The definitions of this section follow the words of the specification, not the code;
  the theorems below compare the code with them.
\<close>

text \<open>\<open>str\<close> of an integer, and the same padded with a zero to at least two digits.\<close>

definition str_int :: "int \<Rightarrow> string" where
  "str_int i = (if i < 0 then CHR ''-'' # str_nat (nat (- i)) else str_nat (nat i))"

definition pad2 :: "int \<Rightarrow> string" where
  "pad2 i = (if 0 \<le> i \<and> i < 10 then CHR ''0'' # str_int i else str_int i)"

text \<open>The remainder of a real number by a positive modulus.\<close>

definition rmod :: "real \<Rightarrow> real \<Rightarrow> real" where
  "rmod x m = x - m * of_int \<lfloor>x / m\<rfloor>"

text \<open>
  \<open>HH:MM:SS\<close> with \<open>HH = floor(S/3600)\<close>, \<open>MM = floor((S mod 3600)/60)\<close> and
  \<open>SS = floor(S mod 60)\<close>, all three computed from the raw value \<open>S\<close>.
\<close>

definition duration_spec :: "real \<Rightarrow> string" where
  "duration_spec S =
     pad2 \<lfloor>S / 3600\<rfloor> @ '':'' @ pad2 \<lfloor>rmod S 3600 / 60\<rfloor> @ '':'' @ pad2 \<lfloor>rmod S 60\<rfloor>"

text \<open>
  Reading a formatted duration back: split at the colons and read each part as a decimal
  number.
\<close>

definition digit_val :: "char \<Rightarrow> nat option" where
  "digit_val c = map_of (zip ''0123456789'' [0, 1, 2, 3, 4, 5, 6, 7, 8, 9]) c"

fun parse_digits :: "nat \<Rightarrow> string \<Rightarrow> nat option" where
  "parse_digits acc [] = Some acc"
| "parse_digits acc (c # cs) =
     (case digit_val c of None \<Rightarrow> None | Some d \<Rightarrow> parse_digits (acc * 10 + d) cs)"

definition parse_nat :: "string \<Rightarrow> nat option" where
  "parse_nat s = (if s = [] then None else parse_digits 0 s)"

fun split_on :: "char \<Rightarrow> string \<Rightarrow> string list" where
  "split_on c [] = [[]]"
| "split_on c (x # xs) =
     (if x = c then [] # split_on c xs
      else (case split_on c xs of [] \<Rightarrow> [[x]] | w # ws \<Rightarrow> (x # w) # ws))"

definition parse_hms :: "string \<Rightarrow> (nat \<times> nat \<times> nat) option" where
  "parse_hms str =
     (case split_on (CHR '':'') str of
        [a, b, c] \<Rightarrow>
          (case (parse_nat a, parse_nat b, parse_nat c) of
             (Some h, Some m, Some s) \<Rightarrow> Some (h, m, s)
           | _ \<Rightarrow> None)
      | _ \<Rightarrow> None)"

text \<open>
  A name ends with the audio extension, matched without regard to case: its last four
  characters are one of the four spellings. An entry passes the filter when it is a
  regular file with such a name.
\<close>

definition has_mp3_ext :: "string \<Rightarrow> bool" where
  "has_mp3_ext name =
     (4 \<le> length name
      \<and> drop (length name - 4) name \<in> set [''.mp3'', ''.mP3'', ''.Mp3'', ''.MP3''])"

fun passes_filter :: "string \<times> node \<Rightarrow> bool" where
  "passes_filter (name, nd) = (isfile nd \<and> has_mp3_ext name)"

text \<open>
  The directory of the example: two files and a subdirectory whose name ends in
  \<open>.mp3\<close> and which holds a file of its own.
\<close>

definition example_listing :: "(string \<times> node) list" where
  "example_listing =
     [(''a.MP3'', File 10), (''b.txt'', File 5), (''c.mp3'', Dir [(''d.mp3'', File 7)])]"

definition example_dir :: "string \<Rightarrow> (string \<times> node) list option" where
  "example_dir d = (if d = ''audio'' then Some example_listing else None)"

definition example_env :: env where
  "example_env = \<lparr>ID3 = None, MP3 = None, yaml = True, listing = example_dir\<rparr>"

text \<open>
  An extraction attempt fails when a decoder is missing, when one of the two decoders
  raises on the file, or when the audio view reports a length that is not a finite
  number, on which \<open>int()\<close> raises. This is said of the environment alone, not of what
  the extractor returns. A field of a record is null when the record has no such key or
  maps it to \<open>None\<close>; a record has an error when its \<open>error\<close> key holds a text; all of
  its data are null when every value other than those of \<open>file\<close>, \<open>length\<close> and
  \<open>error\<close> is \<open>None\<close>.
\<close>

fun non_finite :: "pyfloat \<Rightarrow> bool" where
  "non_finite (Finite x) = False"
| "non_finite PosInf = True"
| "non_finite NegInf = True"
| "non_finite NaN = True"

definition attempt_fails :: "env \<Rightarrow> string \<Rightarrow> bool" where
  "attempt_fails e mp3_file =
     (case ID3 e of
        None \<Rightarrow> True
      | Some id3 \<Rightarrow>
          (case MP3 e of
             None \<Rightarrow> True
           | Some mp3 \<Rightarrow>
               (case id3 mp3_file of
                  Inl err \<Rightarrow> True
                | Inr audio \<Rightarrow>
                    (case mp3 mp3_file of
                       Inl err \<Rightarrow> True
                     | Inr a \<Rightarrow>
                         truthy a
                         \<and> (case info a of
                               None \<Rightarrow> False
                             | Some i \<Rightarrow> non_finite (info_length i))))))"

definition is_null :: "pydict \<Rightarrow> string \<Rightarrow> bool" where
  "is_null d k = (dict_get d k = None \<or> dict_get d k = Some PyNone)"

definition has_error :: "pydict \<Rightarrow> bool" where
  "has_error d = (case dict_get d ''error'' of Some (PyStr msg) \<Rightarrow> True | _ \<Rightarrow> False)"

definition all_data_null :: "pydict \<Rightarrow> bool" where
  "all_data_null d =
     list_all (\<lambda>(k, v). k = ''file'' \<or> k = ''length'' \<or> k = ''error'' \<or> v = PyNone) d"

section \<open>Example environments\<close>

text \<open>
  Concrete runs for the examples: a missing directory, a directory with the single file
  \<open>episode1.mp3\<close> of 2048 bytes, decoders that are absent, that succeed (with a title
  outside ASCII, two comment frames and a length of 3725.9 seconds), that find a title
  frame without text or with an empty string as its text, a tag decoder that raises, an
  audio decoder that raises after the tags were read, and one that reports a length that
  is not a number.
\<close>

definition no_dir :: "string \<Rightarrow> (string \<times> node) list option" where
  "no_dir d = None"

definition episode_dir :: "string \<Rightarrow> (string \<times> node) list option" where
  "episode_dir d = (if d = ''audio'' then Some [(''episode1.mp3'', File 2048)] else None)"

definition scenario_env :: env where
  "scenario_env = \<lparr>ID3 = None, MP3 = None, yaml = True, listing = episode_dir\<rparr>"

definition cafe_id3 :: "string \<Rightarrow> exn + id3_tags" where
  "cafe_id3 p = Inr \<lparr>TIT2 = Some \<lparr>frame_text = [''Caf'' @ [CHR 0xE9]]\<rparr>,
                     COMM = [\<lparr>frame_text = [''first comment'', ''second'']\<rparr>,
                             \<lparr>frame_text = [''other frame'']\<rparr>]\<rparr>"

definition untitled_id3 :: "string \<Rightarrow> exn + id3_tags" where
  "untitled_id3 p = Inr \<lparr>TIT2 = Some \<lparr>frame_text = []\<rparr>, COMM = []\<rparr>"

definition hour_mp3 :: "string \<Rightarrow> exn + mp3_audio" where
  "hour_mp3 p = Inr \<lparr>truthy = True, info = Some \<lparr>info_length = Finite (37259 / 10)\<rparr>\<rparr>"

definition broken_mp3 :: "string \<Rightarrow> exn + mp3_audio" where
  "broken_mp3 p = Inl (DecodeError ''can not sync to MPEG frame'')"

definition failing_id3 :: "string \<Rightarrow> exn + id3_tags" where
  "failing_id3 p = Inl (DecodeError (p @ '' does not start with an ID3 tag''))"

definition nan_mp3 :: "string \<Rightarrow> exn + mp3_audio" where
  "nan_mp3 p = Inr \<lparr>truthy = True, info = Some \<lparr>info_length = NaN\<rparr>\<rparr>"

definition no_tag_env :: env where
  "no_tag_env = \<lparr>ID3 = Some failing_id3, MP3 = Some hour_mp3, yaml = True, listing = episode_dir\<rparr>"

definition nan_env :: env where
  "nan_env = \<lparr>ID3 = Some cafe_id3, MP3 = Some nan_mp3, yaml = True, listing = episode_dir\<rparr>"

definition blank_id3 :: "string \<Rightarrow> exn + id3_tags" where
  "blank_id3 p = Inr \<lparr>TIT2 = Some \<lparr>frame_text = ['''']\<rparr>, COMM = [\<lparr>frame_text = ['''']\<rparr>]\<rparr>"

definition blank_env :: env where
  "blank_env = \<lparr>ID3 = Some blank_id3, MP3 = Some hour_mp3, yaml = True, listing = episode_dir\<rparr>"

definition cafe_env :: env where
  "cafe_env = \<lparr>ID3 = Some cafe_id3, MP3 = Some hour_mp3, yaml = True, listing = episode_dir\<rparr>"

definition untitled_env :: env where
  "untitled_env =
     \<lparr>ID3 = Some untitled_id3, MP3 = Some hour_mp3, yaml = True, listing = episode_dir\<rparr>"

definition midway_env :: env where
  "midway_env =
     \<lparr>ID3 = Some cafe_id3, MP3 = Some broken_mp3, yaml = True, listing = episode_dir\<rparr>"

definition no_yaml_env :: env where
  "no_yaml_env = \<lparr>ID3 = None, MP3 = None, yaml = False, listing = no_dir\<rparr>"

definition empty_env :: env where
  "empty_env = \<lparr>ID3 = None, MP3 = None, yaml = True, listing = no_dir\<rparr>"

definition episode1 :: candidate where
  "episode1 = \<lparr>path = ''audio/episode1.mp3'', filename = ''/audio/episode1.mp3'',
               size_bytes = 2048\<rparr>"

text \<open>
  Grouping separators every three digits from the right: on the reversed digits, a comma
  after each full group of three that is followed by a further digit.
\<close>

fun commas_rev :: "string \<Rightarrow> string" where
  "commas_rev (a # b # c # d # rest) = a # b # c # CHR '','' # commas_rev (d # rest)"
| "commas_rev xs = xs"

definition group_from_right :: "string \<Rightarrow> string" where
  "group_from_right digits = rev (commas_rev (rev digits))"

text \<open>A directory with files of 1234567 and of 999 bytes, whose decoding fails.\<close>

definition sizes_dir :: "string \<Rightarrow> (string \<times> node) list option" where
  "sizes_dir d =
     (if d = ''audio'' then Some [(''big.mp3'', File 1234567), (''small.mp3'', File 999)]
      else None)"

definition sizes_env :: env where
  "sizes_env = \<lparr>ID3 = Some cafe_id3, MP3 = Some broken_mp3, yaml = True, listing = sizes_dir\<rparr>"

section \<open>The serializer\<close>

text \<open>
  Modelled from the spec: the serializer, \<open>yaml.dump\<close> of the PyYAML library, which is
  not part of the repository. The document is a sequence of mappings, one for each
  record, and a mapping is an ordered list of keys with their scalars; a scalar is null
  or the bytes of a text in the file, which the script opens with the encoding UTF-8.
  With \<open>allow_unicode\<close> a character outside ASCII is written literally, as its UTF-8
  bytes; without it the character is written in escaped form. With \<open>sort_keys\<close> the
  keys of a mapping are sorted; without it they keep their insertion order. The quoting
  of scalars and the layout of the document are left out. A character of a text stands
  for the code point of its number.
\<close>

datatype scalar = Null | Text "nat list"

type_synonym yaml_doc = "(string \<times> scalar) list list"

definition utf8_char :: "char \<Rightarrow> nat list" where
  "utf8_char c = (let n = of_char c in if n < 128 then [n] else [192 + n div 64, 128 + n mod 64])"

definition hex_digit :: "nat \<Rightarrow> nat" where
  "hex_digit d = (if d < 10 then 48 + d else 87 + d)"

definition escape_char :: "char \<Rightarrow> nat list" where
  "escape_char c =
     (let n = of_char c in
      if n < 128 then [n] else [92, 120, hex_digit (n div 16), hex_digit (n mod 16)])"

fun emit_value :: "bool \<Rightarrow> pyval \<Rightarrow> scalar" where
  "emit_value unicode PyNone = Null"
| "emit_value unicode (PyStr s) =
     Text (concat (map (if unicode then utf8_char else escape_char) s))"

fun key_le :: "string \<Rightarrow> string \<Rightarrow> bool" where
  "key_le [] ys = True"
| "key_le (x # xs) [] = False"
| "key_le (x # xs) (y # ys) =
     ((of_char x :: nat) < of_char y \<or> (x = y \<and> key_le xs ys))"

fun insert_item :: "string \<times> pyval \<Rightarrow> pydict \<Rightarrow> pydict" where
  "insert_item kv [] = [kv]"
| "insert_item kv (kv' # d) =
     (if key_le (fst kv) (fst kv') then kv # kv' # d else kv' # insert_item kv d)"

fun sort_items :: "pydict \<Rightarrow> pydict" where
  "sort_items [] = []"
| "sort_items (kv # d) = insert_item kv (sort_items d)"

definition yaml_dump :: "dump_call \<Rightarrow> yaml_doc" where
  "yaml_dump dc =
     map (\<lambda>r. map (\<lambda>(k, v). (k, emit_value (allow_unicode dc) v))
                 (if sort_keys dc then sort_items r else r))
         (data dc)"

text \<open>The content of \<open>episodes.yml\<close> after a run, \<open>None\<close> when the run does not write it.\<close>

definition episodes_yml :: "env \<Rightarrow> yaml_doc option" where
  "episodes_yml e = map_option yaml_dump (document (main e))"

text \<open>The literal form of a value in the document: null, or the UTF-8 bytes of the text.\<close>

definition utf8 :: "string \<Rightarrow> nat list" where
  "utf8 s = concat (map utf8_char s)"

definition literal_scalar :: "pyval \<Rightarrow> scalar" where
  "literal_scalar v = (case v of PyNone \<Rightarrow> Null | PyStr s \<Rightarrow> Text (utf8 s))"

section \<open>Evaluation rules\<close>

lemma str_nat_small: "n < 10 \<Longrightarrow> str_nat n = [digit_char n]"
  by (simp add: str_nat.simps)

lemma str_nat_large: "10 \<le> n \<Longrightarrow> str_nat n = str_nat (n div 10) @ [digit_char (n mod 10)]"
  by (subst str_nat.simps) simp

lemma group3_small: "n < 1000 \<Longrightarrow> group3 n = str_nat n"
  by (simp add: group3.simps)

lemma group3_large:
  "1000 \<le> n \<Longrightarrow> group3 n = group3 (n div 1000) @ CHR '','' # zero_pad 3 (str_nat (n mod 1000))"
  by (subst group3.simps) simp

lemmas render_simps =
  str_nat_small str_nat_large group3_small group3_large digit_char_def zero_pad_def
  format_02_def format_comma_def

lemmas spec_simps = duration_spec_def rmod_def pad2_def str_int_def

section \<open>Decimal rendering\<close>

lemma length_str_nat_pos: "Suc 0 \<le> length (str_nat n)"
  by (subst str_nat.simps) simp

lemma length_str_nat_ge2: "10 \<le> n \<Longrightarrow> 2 \<le> length (str_nat n)"
  using length_str_nat_pos [of "n div 10"] by (simp add: str_nat_large)

lemma length_str_nat_ge3: "100 \<le> n \<Longrightarrow> 3 \<le> length (str_nat n)"
  using length_str_nat_ge2 [of "n div 10"] by (simp add: str_nat_large)

text \<open>The format specification \<open>02\<close> pads as the specification says.\<close>

lemma format_02_pad2: "format_02 i = pad2 i"
proof -
  consider "i < 0" | "0 \<le> i" "i < 10" | "10 \<le> i" by linarith
  then show ?thesis
  proof cases
    case 1
    then show ?thesis
      using length_str_nat_pos [of "nat (- i)"]
      by (simp add: format_02_def pad2_def str_int_def zero_pad_def)
  next
    case 2
    then have "nat i < 10" by simp
    then show ?thesis using 2
      by (simp add: format_02_def pad2_def str_int_def zero_pad_def str_nat_small)
  next
    case 3
    then have "10 \<le> nat i" by simp
    from length_str_nat_ge2 [OF this] show ?thesis using 3
      by (simp add: format_02_def pad2_def str_int_def zero_pad_def)
  qed
qed

lemma length_pad2_ge2: "0 \<le> i \<Longrightarrow> 2 \<le> length (pad2 i)"
proof (cases "i < 10")
  case True
  assume "0 \<le> i"
  with True show ?thesis
    using length_str_nat_pos [of "nat i"] by (simp add: pad2_def str_int_def)
next
  case False
  then have "10 \<le> nat i" by simp
  from length_str_nat_ge2 [OF this] False show ?thesis
    by (simp add: pad2_def str_int_def)
qed

lemma length_pad2_ge3: "100 \<le> i \<Longrightarrow> 3 \<le> length (pad2 i)"
proof -
  assume h: "100 \<le> i"
  then have "100 \<le> nat i" by simp
  from length_str_nat_ge3 [OF this] h show ?thesis
    by (simp add: pad2_def str_int_def)
qed

section \<open>Duration formatting\<close>

lemma trunc_nonneg: "0 \<le> x \<Longrightarrow> trunc x = \<lfloor>x\<rfloor>"
  by (simp add: trunc_def)

lemma floor_rmod:
  assumes "0 < m"
  shows "\<lfloor>rmod x (of_int m)\<rfloor> = \<lfloor>x\<rfloor> mod m"
proof -
  have "\<lfloor>x / of_int m\<rfloor> = \<lfloor>x\<rfloor> div m"
    using assms by (simp add: floor_divide_real_eq_div)
  then have "rmod x (of_int m) = x - of_int (m * (\<lfloor>x\<rfloor> div m))"
    by (simp add: rmod_def)
  then have "\<lfloor>rmod x (of_int m)\<rfloor> = \<lfloor>x\<rfloor> - m * (\<lfloor>x\<rfloor> div m)"
    by (simp only: floor_diff_of_int)
  then show ?thesis by (simp add: minus_mult_div_eq_mod)
qed

lemma hms_components:
  "\<lfloor>S / 3600\<rfloor> = \<lfloor>S\<rfloor> div 3600"
  "\<lfloor>rmod S 3600 / 60\<rfloor> = (\<lfloor>S\<rfloor> mod 3600) div 60"
  "\<lfloor>rmod S 60\<rfloor> = \<lfloor>S\<rfloor> mod 60"
proof -
  show "\<lfloor>S / 3600\<rfloor> = \<lfloor>S\<rfloor> div 3600"
    using floor_divide_real_eq_div [of 3600 S] by simp
  have "\<lfloor>rmod S 3600 / 60\<rfloor> = \<lfloor>rmod S 3600\<rfloor> div 60"
    using floor_divide_real_eq_div [of 60 "rmod S 3600"] by simp
  also have "\<lfloor>rmod S 3600\<rfloor> = \<lfloor>S\<rfloor> mod 3600"
    using floor_rmod [of 3600 S] by simp
  finally show "\<lfloor>rmod S 3600 / 60\<rfloor> = (\<lfloor>S\<rfloor> mod 3600) div 60" .
  show "\<lfloor>rmod S 60\<rfloor> = \<lfloor>S\<rfloor> mod 60"
    using floor_rmod [of 60 S] by simp
qed

lemma format_duration_finite:
  "format_duration (Some (Finite S)) =
     Inr (Some (pad2 (trunc S div 3600) @ '':'' @ pad2 ((trunc S mod 3600) div 60) @ '':''
                  @ pad2 (trunc S mod 60)))"
  by (simp add: format_duration_def format_02_pad2)

text \<open>
  Claim C2, as amended. For every non-negative seconds value \<open>S\<close>,
  \<open>format_duration\<close> returns \<open>HH:MM:SS\<close> with \<open>HH = floor(S/3600)\<close> padded with a zero
  to at least two digits and not clamped (three digits or more from 100 hours on),
  \<open>MM = floor((S mod 3600)/60)\<close> and \<open>SS = floor(S mod 60)\<close>: the value is truncated,
  not rounded, so \<open>3725.9\<close> gives \<open>01:02:05\<close>.
\<close>

theorem format_duration_hms:
  "0 \<le> S \<Longrightarrow>
     format_duration (Some (Finite S)) = Inr (Some (duration_spec S))
     \<and> 2 \<le> length (pad2 \<lfloor>S / 3600\<rfloor>)
     \<and> (100 \<le> \<lfloor>S / 3600\<rfloor> \<longrightarrow> 3 \<le> length (pad2 \<lfloor>S / 3600\<rfloor>))"
proof -
  assume nonneg: "0 \<le> S"
  then have "0 \<le> \<lfloor>S / 3600\<rfloor>" by simp
  then have "2 \<le> length (pad2 \<lfloor>S / 3600\<rfloor>)" by (rule length_pad2_ge2)
  moreover have "format_duration (Some (Finite S)) = Inr (Some (duration_spec S))"
    using nonneg
    by (simp add: format_duration_finite duration_spec_def hms_components trunc_nonneg)
  ultimately show ?thesis by (simp add: length_pad2_ge3)
qed

theorem format_duration_hms_witness:
  "(0::real) \<le> 37259 / 10
   \<and> format_duration (Some (Finite (37259 / 10))) = Inr (Some ''01:02:05'')
   \<and> (0::real) \<le> 3637259 / 10 \<and> 100 \<le> \<lfloor>(3637259 / 10 :: real) / 3600\<rfloor>
   \<and> format_duration (Some (Finite (3637259 / 10))) = Inr (Some ''101:02:05'')
   \<and> 3 \<le> length (pad2 \<lfloor>(3637259 / 10 :: real) / 3600\<rfloor>)"
  using format_duration_hms [of "37259 / 10"] format_duration_hms [of "3637259 / 10"]
  by (simp add: spec_simps str_nat_small str_nat_large digit_char_def)

text \<open>
  Claim C2 as stated ranges over every seconds value. At \<open>S = -0.5\<close> the code
  truncates to \<open>0\<close> and returns \<open>00:00:00\<close>, while \<open>floor(S/3600) = -1\<close> and the
  formulas of the claim give \<open>-1:59:59\<close>.
\<close>

theorem format_duration_negative_counterexample:
  "format_duration (Some (Finite (- (1 / 2)))) = Inr (Some ''00:00:00'')
   \<and> duration_spec (- (1 / 2)) = ''-1:59:59''
   \<and> format_duration (Some (Finite (- (1 / 2)))) \<noteq> Inr (Some (duration_spec (- (1 / 2))))"
  by (simp add: format_duration_def trunc_def spec_simps render_simps)

section \<open>Reading a formatted duration back\<close>

lemma digit_cases: "d < 10 \<Longrightarrow> d \<in> {0, 1, 2, 3, 4, 5, 6, 7, 8, 9::nat}"
  by auto

lemma digit_val_digit_char: "d < 10 \<Longrightarrow> digit_val (digit_char d) = Some d"
  by (drule digit_cases) (auto simp: digit_val_def digit_char_def)

lemma digit_char_not_colon: "d < 10 \<Longrightarrow> digit_char d \<noteq> CHR '':''"
  by (drule digit_cases) (auto simp: digit_char_def)

lemma parse_digits_snoc:
  "d < 10 \<Longrightarrow>
     parse_digits acc (xs @ [digit_char d]) = map_option (\<lambda>a. a * 10 + d) (parse_digits acc xs)"
  by (induction xs arbitrary: acc) (auto simp: digit_val_digit_char split: option.splits)

lemma parse_digits_str_nat: "parse_digits 0 (str_nat n) = Some n"
proof (induction n rule: str_nat.induct)
  case (1 n)
  show ?case
  proof (cases "n < 10")
    case True
    then show ?thesis by (simp add: str_nat_small digit_val_digit_char)
  next
    case False
    with 1 have "parse_digits 0 (str_nat (n div 10)) = Some (n div 10)" by simp
    with False show ?thesis by (simp add: str_nat_large parse_digits_snoc)
  qed
qed

lemma colon_notin_str_nat: "CHR '':'' \<notin> set (str_nat n)"
proof (induction n rule: str_nat.induct)
  case (1 n)
  show ?case
  proof (cases "n < 10")
    case True
    then show ?thesis using digit_char_not_colon [of n] by (simp add: str_nat_small)
  next
    case False
    with 1 have "CHR '':'' \<notin> set (str_nat (n div 10))" by simp
    with False show ?thesis
      using digit_char_not_colon [of "n mod 10"] by (simp add: str_nat_large)
  qed
qed

lemma str_nat_nonempty: "str_nat n \<noteq> []"
  using length_str_nat_pos [of n] by auto

lemma parse_nat_pad2: "0 \<le> i \<Longrightarrow> parse_nat (pad2 i) = Some (nat i)"
  by (simp add: parse_nat_def pad2_def str_int_def str_nat_nonempty parse_digits_str_nat
      digit_val_def)

lemma colon_notin_pad2: "0 \<le> i \<Longrightarrow> CHR '':'' \<notin> set (pad2 i)"
  by (simp add: pad2_def str_int_def colon_notin_str_nat)

lemma split_on_none: "c \<notin> set a \<Longrightarrow> split_on c a = [a]"
  by (induction a) auto

lemma split_on_first: "c \<notin> set a \<Longrightarrow> split_on c (a @ c # rest) = a # split_on c rest"
  by (induction a) auto

lemma parse_hms_render:
  assumes "0 \<le> h" "0 \<le> m" "0 \<le> s"
  shows "parse_hms (pad2 h @ '':'' @ pad2 m @ '':'' @ pad2 s) = Some (nat h, nat m, nat s)"
proof -
  have "split_on (CHR '':'') (pad2 h @ CHR '':'' # pad2 m @ CHR '':'' # pad2 s)
          = [pad2 h, pad2 m, pad2 s]"
    using assms by (simp add: split_on_first split_on_none colon_notin_pad2)
  then show ?thesis using assms by (simp add: parse_hms_def parse_nat_pad2)
qed

text \<open>
  Claim C10. For every non-negative seconds value \<open>S\<close> the output of \<open>format_duration\<close>
  splits into hours, minutes and seconds with \<open>minutes < 60\<close>, \<open>seconds < 60\<close> and
  \<open>hours * 3600 + minutes * 60 + seconds\<close> equal to \<open>S\<close> truncated to an integer; and
  \<open>format_duration\<close> returns \<open>None\<close> exactly when its input is \<open>None\<close>.
\<close>

theorem format_duration_roundtrip:
  "(0 \<le> S \<longrightarrow>
      (\<exists>str h m s. format_duration (Some (Finite S)) = Inr (Some str)
         \<and> parse_hms str = Some (h, m, s) \<and> m < 60 \<and> s < 60
         \<and> int (h * 3600 + m * 60 + s) = trunc S))
   \<and> ((format_duration x = Inr None) = (x = None))"
proof
  show "0 \<le> S \<longrightarrow>
      (\<exists>str h m s. format_duration (Some (Finite S)) = Inr (Some str)
         \<and> parse_hms str = Some (h, m, s) \<and> m < 60 \<and> s < 60
         \<and> int (h * 3600 + m * 60 + s) = trunc S)"
  proof
    assume "0 \<le> S"
    define n where "n = trunc S"
    have n: "0 \<le> n" using \<open>0 \<le> S\<close> by (simp add: n_def trunc_nonneg)
    let ?h = "n div 3600" and ?m = "(n mod 3600) div 60" and ?s = "n mod 60"
    let ?str = "pad2 ?h @ '':'' @ pad2 ?m @ '':'' @ pad2 ?s"
    have h: "0 \<le> ?h" and m: "0 \<le> ?m" and s: "0 \<le> ?s" using n by simp_all
    have "format_duration (Some (Finite S)) = Inr (Some ?str)"
      by (simp add: format_duration_finite n_def)
    moreover have "parse_hms ?str = Some (nat ?h, nat ?m, nat ?s)"
      using h m s by (rule parse_hms_render)
    moreover have "?m < 60"
    proof -
      have "?m * 60 + n mod 3600 mod 60 = n mod 3600" by simp
      moreover have "0 \<le> n mod 3600 mod 60" by simp
      moreover have "n mod 3600 < 3600" by simp
      ultimately show ?thesis by linarith
    qed
    then have "nat ?m < 60" by simp
    moreover have "?s < 60" by simp
    then have "nat ?s < 60" by simp
    moreover have "int (nat ?h * 3600 + nat ?m * 60 + nat ?s) = n"
    proof -
      have "n mod 3600 mod 60 = n mod 60" by (simp add: mod_mod_cancel)
    moreover have "?m * 60 + n mod 3600 mod 60 = n mod 3600" by simp
    moreover have "?h * 3600 + n mod 3600 = n" by simp
      ultimately have "?h * 3600 + ?m * 60 + ?s = n" by linarith
      then show ?thesis using h m s by simp
    qed
    ultimately show "\<exists>str h m s. format_duration (Some (Finite S)) = Inr (Some str)
         \<and> parse_hms str = Some (h, m, s) \<and> m < 60 \<and> s < 60
         \<and> int (h * 3600 + m * 60 + s) = trunc S"
      unfolding n_def by blast
  qed
  show "(format_duration x = Inr None) = (x = None)"
    by (cases x) (auto simp: format_duration_def split: sum.splits)
qed

theorem format_duration_roundtrip_witness:
  "(0::real) \<le> 37259 / 10
   \<and> format_duration (Some (Finite (37259 / 10))) = Inr (Some ''01:02:05'')
   \<and> parse_hms ''01:02:05'' = Some (1, 2, 5)
   \<and> int (1 * 3600 + 2 * 60 + 5) = trunc (37259 / 10)"
  using format_duration_roundtrip [of "37259 / 10" None]
  by (simp add: format_duration_def trunc_def render_simps parse_hms_def parse_nat_def digit_val_def)

section \<open>The scanner's filter\<close>

lemma lower_char_dot: "(lower_char c = CHR ''.'') = (c = CHR ''.'')"
  by (auto simp: lower_char_def split: if_splits)

lemma lower_char_3: "(lower_char c = CHR ''3'') = (c = CHR ''3'')"
  by (auto simp: lower_char_def split: if_splits)

lemma lower_char_m: "(lower_char c = CHR ''m'') = (c = CHR ''m'' \<or> c = CHR ''M'')"
  by (auto simp: lower_char_def split: if_splits)

lemma lower_char_p: "(lower_char c = CHR ''p'') = (c = CHR ''p'' \<or> c = CHR ''P'')"
  by (auto simp: lower_char_def split: if_splits)

lemma length4: "length xs = 4 \<Longrightarrow> \<exists>a b c d. xs = [a, b, c, d]"
  by (cases xs; simp; cases "tl xs"; simp; cases "tl (tl xs)"; simp; cases "tl (tl (tl xs))"; simp) 

lemma lower_ext:
  assumes "length ext = 4"
  shows "(map lower_char ext = ''.mp3'') = (ext \<in> set [''.mp3'', ''.mP3'', ''.Mp3'', ''.MP3''])"
proof -
  from length4 [OF assms] obtain a b c d where "ext = [a, b, c, d]" by blast
  then show ?thesis
    by (auto simp: lower_char_dot lower_char_3 lower_char_m lower_char_p)
qed

lemma endswith_mp3:
  "endswith s ''.mp3'' = (4 \<le> length s \<and> drop (length s - 4) s = ''.mp3'')"
proof -
  have len: "length ''.mp3'' = 4" by simp
  show ?thesis by (simp only: endswith_def len)
qed

lemma endswith_lower_mp3: "endswith (lower name) ''.mp3'' = has_mp3_ext name"
proof (cases "4 \<le> length name")
  case True
  then have "length (drop (length name - 4) name) = 4" by simp
  from lower_ext [OF this] have
    "(map lower_char (drop (length name - 4) name) = ''.mp3'')
       = (drop (length name - 4) name \<in> set [''.mp3'', ''.mP3'', ''.Mp3'', ''.MP3''])" .
  then show ?thesis
    by (simp only: endswith_mp3 has_mp3_ext_def lower_def length_map drop_map)
next
  case False
  then show ?thesis by (simp only: endswith_mp3 has_mp3_ext_def lower_def length_map) simp
qed

lemma scan_entries_filter:
  "map filename (scan_entries d es) = map (\<lambda>(name, nd). ''/audio/'' @ name) (filter passes_filter es)
   \<and> map path (scan_entries d es) = map (\<lambda>(name, nd). path_join d name) (filter passes_filter es)"
  by (induction d es rule: scan_entries.induct) (simp_all add: endswith_lower_mp3)

text \<open>
  Claim C5. The candidates of an existing directory are exactly its entries that are
  regular files with a name ending in the audio extension, matched without regard to
  case, in listing order: a directory is never a candidate, whatever its name, and the
  entries below it are not looked at. In the example directory with \<open>a.MP3\<close>,
  \<open>b.txt\<close> and the subdirectory \<open>c.mp3\<close> the only candidate is \<open>a.MP3\<close>.
\<close>

theorem get_mp3_files_filter:
  "listing e d = Some es \<Longrightarrow>
     map filename (get_mp3_files e d)
       = map (\<lambda>(name, nd). ''/audio/'' @ name) (filter passes_filter es)
     \<and> map path (get_mp3_files e d)
       = map (\<lambda>(name, nd). path_join d name) (filter passes_filter es)"
  using scan_entries_filter [of d es] by (simp add: get_mp3_files_def)

theorem get_mp3_files_filter_witness:
  "listing example_env ''audio'' = Some example_listing
   \<and> map filename (get_mp3_files example_env ''audio'') = [''/audio/a.MP3'']
   \<and> map path (get_mp3_files example_env ''audio'') = [''audio/a.MP3'']"
proof -
  have h: "listing example_env ''audio'' = Some example_listing"
    by (simp add: example_env_def example_dir_def)
  show ?thesis
    using h get_mp3_files_filter [OF h]
    by (simp add: example_listing_def has_mp3_ext_def path_join_def)
qed

lemmas env_simps =
  scenario_env_def cafe_env_def untitled_env_def midway_env_def no_yaml_env_def empty_env_def
  no_dir_def episode_dir_def cafe_id3_def untitled_id3_def hour_mp3_def broken_mp3_def
  episode1_def failing_id3_def nan_mp3_def no_tag_env_def nan_env_def blank_id3_def
  blank_env_def

lemmas extract_simps =
  get_title_and_comments_def try_block_def title_of_def comments_of_def duration_of_def
  opt_str_def merge_fields_def main_def get_mp3_files_def

section \<open>The two shapes of a record\<close>

lemma format_duration_raises:
  "(\<exists>err. format_duration d = Inl err) = (\<exists>s. d = Some s \<and> non_finite s)"
proof (cases d)
  case None
  then show ?thesis by (simp add: format_duration_def)
next
  case (Some s)
  then show ?thesis by (cases s) (simp_all add: format_duration_def Let_def)
qed

lemma extractor_shape:
  "(\<not> attempt_fails e p
      \<and> (\<exists>t d u. get_title_and_comments e p
                   = [(''title'', t), (''description'', d), (''duration'', u)]))
   \<or> (attempt_fails e p
      \<and> (\<exists>msg. get_title_and_comments e p
                 = [(''file'', PyStr p), (''title'', PyNone), (''comments'', PyNone),
                    (''duration'', PyNone), (''error'', PyStr msg)]))"
proof (cases "ID3 e")
  case None
  then show ?thesis by (simp add: attempt_fails_def get_title_and_comments_def)
next
  case id3: (Some id3)
  show ?thesis
  proof (cases "MP3 e")
    case None
    then show ?thesis using id3 by (simp add: attempt_fails_def get_title_and_comments_def)
  next
    case mp3: (Some mp3)
    show ?thesis
    proof (cases "id3 p")
      case (Inl err)
      then show ?thesis using id3 mp3
        by (simp add: attempt_fails_def get_title_and_comments_def try_block_def)
    next
      case audio: (Inr audio)
      show ?thesis
      proof (cases "mp3 p")
        case (Inl err)
        then show ?thesis using id3 mp3 audio
          by (simp add: attempt_fails_def get_title_and_comments_def try_block_def)
      next
        case a: (Inr a)
        have fails: "attempt_fails e p = (\<exists>s. duration_of a = Some s \<and> non_finite s)"
          using id3 mp3 audio a
          by (auto simp: attempt_fails_def duration_of_def split: option.splits)
        show ?thesis
        proof (cases "format_duration (duration_of a)")
          case (Inl err)
          then have "attempt_fails e p" using format_duration_raises [of "duration_of a"]
            by (simp add: fails)
          then show ?thesis using id3 mp3 audio a Inl
            by (simp add: get_title_and_comments_def try_block_def)
        next
          case (Inr d)
          then have "\<not> attempt_fails e p" using format_duration_raises [of "duration_of a"]
            by (simp add: fails)
          then show ?thesis using id3 mp3 audio a Inr
            by (simp add: get_title_and_comments_def try_block_def)
        qed
      qed
    qed
  qed
qed

lemma merge_shape:
  "(\<not> attempt_fails e (path c)
      \<and> (\<exists>t d u. get_title_and_comments e (path c)
                    = [(''title'', t), (''description'', d), (''duration'', u)]
                 \<and> merge_fields e c
                    = [(''title'', t), (''description'', d), (''duration'', u),
                       (''file'', PyStr (filename c)),
                       (''length'', PyStr (format_comma (size_bytes c)))]))
   \<or> (attempt_fails e (path c)
      \<and> (\<exists>msg. get_title_and_comments e (path c)
                    = [(''file'', PyStr (path c)), (''title'', PyNone), (''comments'', PyNone),
                       (''duration'', PyNone), (''error'', PyStr msg)]
                 \<and> merge_fields e c
                    = [(''file'', PyStr (filename c)), (''title'', PyNone),
                       (''comments'', PyNone), (''duration'', PyNone), (''error'', PyStr msg),
                       (''length'', PyStr (format_comma (size_bytes c)))]))"
  using extractor_shape [of e "path c"] by (auto simp: merge_fields_def)

lemmas null_simps = is_null_def has_error_def all_data_null_def dict_get_def keys_def

text \<open>
  Claim C1. When an extraction attempt fails, because a decoder is missing, because the
  tag decoder or the audio decoder raised on the file, or because the conversion of the
  length raised, the record has \<open>title\<close>, \<open>description\<close> and \<open>duration\<close> null and an
  \<open>error\<close> text, and none of its data fields holds a value: the failure record is
  fully null, also when the exception came after the tags had been read. When the
  attempt does not fail the record has no \<open>error\<close> key, so no record mixes metadata
  with an error. Both hold of the extractor's result and of the record after the merge
  step. Null is read as in the data model of the specification (absent or \<open>None\<close>): in
  a failure record \<open>title\<close> and \<open>duration\<close> are \<open>None\<close> and \<open>description\<close> is absent.
\<close>

theorem failure_record_fully_null:
  "(attempt_fails e (path c) \<longrightarrow>
      is_null (get_title_and_comments e (path c)) ''title''
      \<and> is_null (get_title_and_comments e (path c)) ''description''
      \<and> is_null (get_title_and_comments e (path c)) ''duration''
      \<and> has_error (get_title_and_comments e (path c))
      \<and> all_data_null (get_title_and_comments e (path c))
      \<and> is_null (merge_fields e c) ''title''
      \<and> is_null (merge_fields e c) ''description''
      \<and> is_null (merge_fields e c) ''duration''
      \<and> has_error (merge_fields e c)
      \<and> all_data_null (merge_fields e c))
   \<and> (\<not> attempt_fails e (path c) \<longrightarrow>
        dict_get (get_title_and_comments e (path c)) ''error'' = None
        \<and> dict_get (merge_fields e c) ''error'' = None)"
  using merge_shape [of e c] by (auto simp: null_simps)

theorem failure_record_fully_null_witness:
  "attempt_fails midway_env (path episode1)
   \<and> cafe_id3 (path episode1)
       = Inr \<lparr>TIT2 = Some \<lparr>frame_text = [''Caf'' @ [CHR 0xE9]]\<rparr>,
              COMM = [\<lparr>frame_text = [''first comment'', ''second'']\<rparr>,
                      \<lparr>frame_text = [''other frame'']\<rparr>]\<rparr>
   \<and> broken_mp3 (path episode1) = Inl (DecodeError ''can not sync to MPEG frame'')
   \<and> is_null (merge_fields midway_env episode1) ''title''
   \<and> is_null (merge_fields midway_env episode1) ''description''
   \<and> is_null (merge_fields midway_env episode1) ''duration''
   \<and> has_error (merge_fields midway_env episode1)
   \<and> all_data_null (merge_fields midway_env episode1)
   \<and> attempt_fails scenario_env (path episode1)
   \<and> has_error (merge_fields scenario_env episode1)
   \<and> attempt_fails no_tag_env (path episode1)
   \<and> has_error (merge_fields no_tag_env episode1)
   \<and> attempt_fails nan_env (path episode1)
   \<and> all_data_null (merge_fields nan_env episode1)
   \<and> \<not> attempt_fails cafe_env (path episode1)
   \<and> dict_get (merge_fields cafe_env episode1) ''error'' = None"
  using failure_record_fully_null [of midway_env episode1]
    failure_record_fully_null [of scenario_env episode1]
    failure_record_fully_null [of no_tag_env episode1]
    failure_record_fully_null [of nan_env episode1]
    failure_record_fully_null [of cafe_env episode1]
  by (simp add: attempt_fails_def env_simps)

section \<open>The title\<close>

text \<open>
  A tag container without title frame, or with a title frame whose list of text entries
  is empty, gives the title \<open>None\<close> on every path.
\<close>

lemma title_null_without_text:
  "ID3 e = Some id3 \<Longrightarrow> id3 (path c) = Inr audio \<Longrightarrow>
   TIT2 audio = None \<or> (\<exists>fr. TIT2 audio = Some fr \<and> frame_text fr = []) \<Longrightarrow>
     dict_get (get_title_and_comments e (path c)) ''title'' = Some PyNone
     \<and> dict_get (merge_fields e c) ''title'' = Some PyNone"
  by (auto simp: extract_simps dict_get_def Let_def split: option.splits sum.splits)

text \<open>
  Claim C3. The claim has the title null whenever the title frame has empty text. For a
  title frame whose text is the empty string the code returns the empty string as the
  title, not \<open>None\<close>, while the empty comment of the same file gives the description
  \<open>None\<close>.
\<close>

theorem blank_title_record:
  "blank_id3 (path episode1)
     = Inr \<lparr>TIT2 = Some \<lparr>frame_text = ['''']\<rparr>, COMM = [\<lparr>frame_text = ['''']\<rparr>]\<rparr>
   \<and> get_title_and_comments blank_env (path episode1)
       = [(''title'', PyStr ''''), (''description'', PyNone), (''duration'', PyStr ''01:02:05'')]
   \<and> dict_get (merge_fields blank_env episode1) ''title'' = Some (PyStr '''')
   \<and> dict_get (merge_fields blank_env episode1) ''title'' \<noteq> Some PyNone
   \<and> dict_get (merge_fields blank_env episode1) ''description'' = Some PyNone"
  by (simp add: blank_env_def blank_id3_def hour_mp3_def episode1_def merge_fields_def
      get_title_and_comments_def try_block_def title_of_def comments_of_def duration_of_def
      opt_str_def format_duration_def trunc_def render_simps dict_get_def)

section \<open>Runs\<close>

lemma merge_file: "dict_get (merge_fields e c) ''file'' = Some (PyStr (filename c))"
  using merge_shape [of e c] by (auto simp: dict_get_def)

lemma merge_length:
  "dict_get (merge_fields e c) ''length'' = Some (PyStr (format_comma (size_bytes c)))"
  using merge_shape [of e c] by (auto simp: dict_get_def)

lemma results_main: "results (main e) = map (merge_fields e) (get_mp3_files e ''audio'')"
  by (simp add: main_def Let_def)

lemma document_main:
  "document (main e) =
     (if yaml e
      then Some \<lparr>data = results (main e), allow_unicode = True, sort_keys = False,
                  target = ''episodes.yml''\<rparr>
      else None)"
  by (simp add: main_def Let_def)

text \<open>
  Claim C4. In every run the number of records equals the number of entries of the input
  directory that pass the scanner's filter, whatever the decoders do: the records name,
  in listing order, exactly the filtered files, one record each.
\<close>

theorem one_record_per_filtered_file:
  "length (results (main e))
     = (case listing e ''audio'' of None \<Rightarrow> 0 | Some es \<Rightarrow> length (filter passes_filter es))
   \<and> map (\<lambda>r. dict_get r ''file'') (results (main e))
     = (case listing e ''audio'' of
          None \<Rightarrow> []
        | Some es \<Rightarrow> map (\<lambda>(name, nd). Some (PyStr (''/audio/'' @ name)))
                       (filter passes_filter es))"
proof (cases "listing e ''audio''")
  case None
  then show ?thesis by (simp add: results_main get_mp3_files_def)
next
  case (Some es)
  have names: "map filename (scan_entries ''audio'' es)
                 = map (\<lambda>(name, nd). ''/audio/'' @ name) (filter passes_filter es)"
    using scan_entries_filter [of "''audio''" es] by simp
  have "length (scan_entries ''audio'' es) = length (filter passes_filter es)"
    using arg_cong [OF names, of length] by simp
  moreover have "map (\<lambda>r. dict_get r ''file'') (map (merge_fields e) (scan_entries ''audio'' es))
                   = map (\<lambda>n. Some (PyStr n)) (map filename (scan_entries ''audio'' es))"
    by (simp add: merge_file)
  ultimately show ?thesis
    using Some by (simp add: results_main get_mp3_files_def names split_def)
qed

text \<open>
  Claim C6, as amended. When the input directory does not exist the scanner returns the
  empty list without raising and the run has no records; when the serializer is
  available the run writes the document with the empty list of records.
\<close>

theorem missing_directory:
  "listing e ''audio'' = None \<Longrightarrow>
     get_mp3_files e ''audio'' = []
     \<and> results (main e) = []
     \<and> (yaml e \<longrightarrow>
          document (main e)
            = Some \<lparr>data = [], allow_unicode = True, sort_keys = False,
                     target = ''episodes.yml''\<rparr>)"
  by (simp add: document_main results_main get_mp3_files_def)

theorem missing_directory_witness:
  "listing empty_env ''audio'' = None \<and> yaml empty_env
   \<and> get_mp3_files empty_env ''audio'' = []
   \<and> document (main empty_env)
       = Some \<lparr>data = [], allow_unicode = True, sort_keys = False, target = ''episodes.yml''\<rparr>"
  using missing_directory [of empty_env] by (simp add: env_simps)

text \<open>
  Claim C6 as stated has the run write the document whenever the directory is missing.
  Without the serializer nothing is written.
\<close>

theorem missing_directory_no_serializer_counterexample:
  "listing no_yaml_env ''audio'' = None \<and> document (main no_yaml_env) = None"
  by (simp add: env_simps document_main)

text \<open>
  Claim C9. With the decoder missing and the one candidate \<open>episode1.mp3\<close> of 2048
  bytes, the run has a single record with the fixed message, the display name and the
  length \<open>2,048\<close>; its null fields are \<open>title\<close>, \<open>comments\<close> and \<open>duration\<close>: the
  record has a key \<open>comments\<close> and no key \<open>description\<close>.
\<close>

theorem scenario_record:
  "results (main scenario_env)
     = [[(''file'', PyStr ''/audio/episode1.mp3''), (''title'', PyNone), (''comments'', PyNone),
         (''duration'', PyNone), (''error'', PyStr ''mutagen not installed''),
         (''length'', PyStr ''2,048'')]]
   \<and> dict_get (hd (results (main scenario_env))) ''description'' = None
   \<and> dict_get (hd (results (main scenario_env))) ''comments'' = Some PyNone"
  by (simp add: env_simps extract_simps dict_get_def endswith_lower_mp3 has_mp3_ext_def
      path_join_def render_simps Let_def)

section \<open>The serialized document\<close>

lemma emit_value_literal: "emit_value True v = literal_scalar v"
  by (cases v) (simp_all add: literal_scalar_def utf8_def)

lemma episodes_yml_written:
  "yaml e \<Longrightarrow>
     episodes_yml e
       = Some (map (\<lambda>r. map (\<lambda>(k, v). (k, literal_scalar v)) r) (results (main e)))"
  by (simp add: episodes_yml_def document_main yaml_dump_def emit_value_literal)

lemma record_keys_cases:
  "(dict_get (merge_fields e c) ''error'' = None
      \<and> keys (merge_fields e c) = [''title'', ''description'', ''duration'', ''file'', ''length''])
   \<or> (dict_get (merge_fields e c) ''error'' \<noteq> None
      \<and> (\<exists>k. keys (merge_fields e c)
               = [''file'', ''title'', k, ''duration'', ''error'', ''length'']))"
  using merge_shape [of e c] by (auto simp: dict_get_def keys_def)

text \<open>
  Claim C8, as amended. In the serialized document every record has its keys in
  insertion order: \<open>title\<close>, \<open>description\<close>, \<open>duration\<close>, \<open>file\<close>, \<open>length\<close> for a
  record without error, and \<open>file\<close>, \<open>title\<close>, one more data key, \<open>duration\<close>,
  \<open>error\<close>, \<open>length\<close> for a record of a failed extraction. Every value is in the
  document in literal form: a text outside ASCII, such as the title of the example, as
  its UTF-8 bytes and not as an escape.
\<close>

theorem document_key_order_and_text:
  "yaml e \<Longrightarrow>
     (\<exists>doc. episodes_yml e = Some doc \<and> length doc = length (results (main e))
        \<and> (\<forall>i < length doc.
              map fst (doc ! i) = keys (results (main e) ! i)
              \<and> map snd (doc ! i) = map (\<lambda>(k, v). literal_scalar v) (results (main e) ! i)
              \<and> ((dict_get (results (main e) ! i) ''error'' = None
                    \<and> map fst (doc ! i)
                        = [''title'', ''description'', ''duration'', ''file'', ''length''])
                 \<or> (dict_get (results (main e) ! i) ''error'' \<noteq> None
                    \<and> (\<exists>k. map fst (doc ! i)
                             = [''file'', ''title'', k, ''duration'', ''error'',
                                ''length''])))))"
proof -
  assume y: "yaml e"
  let ?doc = "map (\<lambda>r. map (\<lambda>(k, v). (k, literal_scalar v)) r) (results (main e))"
  have doc: "episodes_yml e = Some ?doc" using y by (rule episodes_yml_written)
  have len: "length ?doc = length (results (main e))" by simp
  have all: "\<forall>i < length ?doc.
          map fst (?doc ! i) = keys (results (main e) ! i)
          \<and> map snd (?doc ! i) = map (\<lambda>(k, v). literal_scalar v) (results (main e) ! i)
          \<and> ((dict_get (results (main e) ! i) ''error'' = None
                \<and> map fst (?doc ! i)
                    = [''title'', ''description'', ''duration'', ''file'', ''length''])
             \<or> (dict_get (results (main e) ! i) ''error'' \<noteq> None
                \<and> (\<exists>k. map fst (?doc ! i)
                         = [''file'', ''title'', k, ''duration'', ''error'', ''length''])))"
  proof (intro allI impI)
    fix i assume "i < length ?doc"
    then have i: "i < length (get_mp3_files e ''audio'')" by (simp add: results_main)
    define c where "c = get_mp3_files e ''audio'' ! i"
    have r: "results (main e) ! i = merge_fields e c" using i by (simp add: results_main c_def)
    have d: "?doc ! i = map (\<lambda>(k, v). (k, literal_scalar v)) (merge_fields e c)"
      using i by (simp add: results_main c_def)
    have k: "map fst (?doc ! i) = keys (merge_fields e c)"
      unfolding d by (simp add: keys_def split_def comp_def)
    have v: "map snd (?doc ! i) = map (\<lambda>(k, v). literal_scalar v) (merge_fields e c)"
      unfolding d by (simp add: split_def comp_def)
    show "map fst (?doc ! i) = keys (results (main e) ! i)
          \<and> map snd (?doc ! i) = map (\<lambda>(k, v). literal_scalar v) (results (main e) ! i)
          \<and> ((dict_get (results (main e) ! i) ''error'' = None
                \<and> map fst (?doc ! i)
                    = [''title'', ''description'', ''duration'', ''file'', ''length''])
             \<or> (dict_get (results (main e) ! i) ''error'' \<noteq> None
                \<and> (\<exists>k. map fst (?doc ! i)
                         = [''file'', ''title'', k, ''duration'', ''error'', ''length''])))"
      unfolding k v r using record_keys_cases [of e c] by simp
  qed
  show ?thesis by (intro exI [of _ ?doc] conjI; (rule doc len all))
qed

lemma cafe_results:
  "results (main cafe_env)
     = [[(''title'', PyStr (''Caf'' @ [CHR 0xE9])), (''description'', PyStr ''first comment''),
         (''duration'', PyStr ''01:02:05''), (''file'', PyStr ''/audio/episode1.mp3''),
         (''length'', PyStr ''2,048'')]]"
proof -
  have cands: "get_mp3_files cafe_env ''audio'' = [episode1]"
    by (simp add: env_simps get_mp3_files_def endswith_lower_mp3 has_mp3_ext_def path_join_def)
  show ?thesis
    unfolding results_main cands
    by (simp add: cafe_env_def cafe_id3_def hour_mp3_def episode1_def merge_fields_def
        get_title_and_comments_def try_block_def title_of_def comments_of_def duration_of_def
        opt_str_def format_duration_def trunc_def render_simps)
qed

theorem document_key_order_and_text_witness:
  "yaml cafe_env
   \<and> map_option length (episodes_yml cafe_env) = Some 1
   \<and> map_option (\<lambda>doc. map fst (doc ! 0)) (episodes_yml cafe_env)
       = Some [''title'', ''description'', ''duration'', ''file'', ''length'']
   \<and> map_option (\<lambda>doc. map_of (doc ! 0) ''title'') (episodes_yml cafe_env)
       = Some (Some (Text [67, 97, 102, 195, 169]))
   \<and> dict_get (results (main cafe_env) ! 0) ''error'' = None
   \<and> emit_value False (PyStr (''Caf'' @ [CHR 0xE9])) = Text [67, 97, 102, 92, 120, 101, 57]"
proof -
  have y: "yaml cafe_env" by (simp add: cafe_env_def)
  from document_key_order_and_text [OF y] obtain doc where
    doc: "episodes_yml cafe_env = Some doc" and len: "length doc = length (results (main cafe_env))"
    and all: "\<forall>i < length doc.
              map fst (doc ! i) = keys (results (main cafe_env) ! i)
              \<and> map snd (doc ! i)
                  = map (\<lambda>(k, v). literal_scalar v) (results (main cafe_env) ! i)
              \<and> ((dict_get (results (main cafe_env) ! i) ''error'' = None
                    \<and> map fst (doc ! i)
                        = [''title'', ''description'', ''duration'', ''file'', ''length''])
                 \<or> (dict_get (results (main cafe_env) ! i) ''error'' \<noteq> None
                    \<and> (\<exists>k. map fst (doc ! i)
                             = [''file'', ''title'', k, ''duration'', ''error'',
                                ''length''])))"
    by blast
  have l1: "length doc = 1" using len by (simp add: cafe_results)
  then have z: "0 < length doc" by simp
  from all z have fst0: "map fst (doc ! 0) = keys (results (main cafe_env) ! 0)"
    and snd0: "map snd (doc ! 0)
                 = map (\<lambda>(k, v). literal_scalar v) (results (main cafe_env) ! 0)"
    by blast+
  have keys0: "map fst (doc ! 0) = [''title'', ''description'', ''duration'', ''file'', ''length'']"
    using fst0 by (simp add: cafe_results keys_def)
  have "doc ! 0 = zip (map fst (doc ! 0)) (map snd (doc ! 0))" by (simp add: zip_map_fst_snd)
  then have "map_of (doc ! 0) ''title'' = Some (Text [67, 97, 102, 195, 169])"
    unfolding keys0 snd0
    by (simp add: cafe_results literal_scalar_def utf8_def utf8_char_def)
  then show ?thesis
    using y doc l1 keys0
    by (simp add: cafe_results dict_get_def escape_char_def hex_digit_def)
qed

text \<open>
  Claim C8 as stated gives every record of the document the order \<open>title\<close>,
  \<open>description\<close>, \<open>duration\<close>, \<open>file\<close>, \<open>length\<close>, \<open>error\<close>. A record of a failed
  extraction starts with \<open>file\<close> and has \<open>error\<close> before \<open>length\<close>.
\<close>

theorem failure_key_order_counterexample:
  "yaml midway_env
   \<and> map_option (map (map fst)) (episodes_yml midway_env)
       = Some [[''file'', ''title'', ''comments'', ''duration'', ''error'', ''length'']]
   \<and> map_option (map (map fst)) (episodes_yml midway_env)
       \<noteq> Some [[''title'', ''description'', ''duration'', ''file'', ''length'', ''error'']]"
proof -
  have cands: "get_mp3_files midway_env ''audio'' = [episode1]"
    by (simp add: env_simps get_mp3_files_def endswith_lower_mp3 has_mp3_ext_def path_join_def)
  have y: "yaml midway_env" by (simp add: midway_env_def)
  have eq: "map_option (map (map fst)) (episodes_yml midway_env)
       = Some [[''file'', ''title'', ''comments'', ''duration'', ''error'', ''length'']]"
    unfolding episodes_yml_written [OF y] results_main cands
    by (simp add: midway_env_def cafe_id3_def broken_mp3_def episode1_def merge_fields_def
        get_title_and_comments_def try_block_def)
  show ?thesis unfolding eq using y by simp
qed

section \<open>Thousands separators\<close>

lemma commas_rev_short: "length xs \<le> 3 \<Longrightarrow> commas_rev xs = xs"
  by (induction xs rule: commas_rev.induct) simp_all

lemma commas_rev_three:
  "xs \<noteq> [] \<Longrightarrow> commas_rev (a # b # c # xs) = a # b # c # CHR '','' # commas_rev xs"
  by (cases xs) simp_all

lemma digit_char_0: "digit_char 0 = CHR ''0''"
  by (simp add: digit_char_def)

lemma str_nat_snoc: "0 < q \<Longrightarrow> d < 10 \<Longrightarrow> str_nat (q * 10 + d) = str_nat q @ [digit_char d]"
  by (simp add: str_nat_large)

lemma three_digits:
  fixes r :: nat
  shows "r = (r div 100) * 100 + (r div 10 mod 10) * 10 + r mod 10"
proof -
  have "r = r div 10 * 10 + r mod 10" by simp
  moreover have "r div 10 = r div 10 div 10 * 10 + r div 10 mod 10" by simp
  moreover have "r div 10 div 10 = r div 100" by (simp add: div_mult2_eq [symmetric])
  ultimately show ?thesis by linarith
qed


lemma zero_pad3_digits:
  assumes "m < 1000"
  shows "zero_pad 3 (str_nat m)
           = [digit_char (m div 100), digit_char (m div 10 mod 10), digit_char (m mod 10)]"
proof -
  consider "m < 10" | "10 \<le> m" "m < 100" | "100 \<le> m" by linarith
  then show ?thesis
  proof cases
    case 1
    then show ?thesis by (simp add: str_nat_small zero_pad_def digit_char_0 numeral_3_eq_3)
  next
    case 2
    then have "m div 10 < 10" by simp
    with 2 show ?thesis
      by (simp add: str_nat_large str_nat_small zero_pad_def digit_char_0)
  next
    case 3
    then have a: "10 \<le> m" "10 \<le> m div 10" by simp_all
    have b: "m div 10 div 10 < 10" using assms by simp
    have c: "m div 10 div 10 = m div 100" by (simp add: div_mult2_eq [symmetric])
    have "str_nat m = [digit_char (m div 100), digit_char (m div 10 mod 10), digit_char (m mod 10)]"
      using b by (simp add: str_nat_large [OF a(1)] str_nat_large [OF a(2)] str_nat_small c)
    then show ?thesis by (simp add: zero_pad_def)
  qed
qed

lemma str_nat_thousands:
  assumes "1000 \<le> n"
  shows "str_nat n = str_nat (n div 1000) @ zero_pad 3 (str_nat (n mod 1000))"
proof -
  define q where "q = n div 1000"
  define r where "r = n mod 1000"
  define a where "a = r div 100"
  define b where "b = r div 10 mod 10"
  define c where "c = r mod 10"
  have q: "0 < q" using assms by (simp add: q_def div_greater_zero_iff)
  have r: "r < 1000" by (simp add: r_def)
  have digits: "a < 10" "b < 10" "c < 10" using r by (simp_all add: a_def b_def c_def)
  have "r = a * 100 + b * 10 + c"
    unfolding a_def b_def c_def by (rule three_digits)
  moreover have "n = q * 1000 + r" by (simp add: q_def r_def)
  ultimately have n: "n = ((q * 10 + a) * 10 + b) * 10 + c" by simp
  have "str_nat (((q * 10 + a) * 10 + b) * 10 + c)
          = str_nat ((q * 10 + a) * 10 + b) @ [digit_char c]"
    using q digits by (intro str_nat_snoc) simp_all
  moreover have "str_nat ((q * 10 + a) * 10 + b) = str_nat (q * 10 + a) @ [digit_char b]"
    using q digits by (intro str_nat_snoc) simp_all
  moreover have "str_nat (q * 10 + a) = str_nat q @ [digit_char a]"
    using q digits by (intro str_nat_snoc) simp_all
  ultimately have "str_nat n = str_nat q @ [digit_char a, digit_char b, digit_char c]"
    unfolding n by simp
  moreover have "zero_pad 3 (str_nat r) = [digit_char a, digit_char b, digit_char c]"
    unfolding a_def b_def c_def using r by (rule zero_pad3_digits)
  ultimately show ?thesis by (simp add: q_def r_def)
qed

lemma length_str_nat_le3: "n < 1000 \<Longrightarrow> length (str_nat n) \<le> 3"
  using zero_pad3_digits [of n] by (auto simp: zero_pad_def dest: arg_cong [where f = length])

lemma group3_from_right: "group3 n = group_from_right (str_nat n)"
proof (induction n rule: group3.induct)
  case (1 n)
  show ?case
  proof (cases "n < 1000")
    case True
    then show ?thesis
      by (simp add: group3_small group_from_right_def commas_rev_short length_str_nat_le3)
  next
    case False
    then have big: "1000 \<le> n" by simp
    with 1 have ih: "group3 (n div 1000) = group_from_right (str_nat (n div 1000))" by simp
    obtain x y z where pad: "zero_pad 3 (str_nat (n mod 1000)) = [x, y, z]"
      using zero_pad3_digits [of "n mod 1000"] by simp
    have ne: "rev (str_nat (n div 1000)) \<noteq> []"
      using length_str_nat_pos [of "n div 1000"] by auto
    have "group_from_right (str_nat n)
            = rev (commas_rev (z # y # x # rev (str_nat (n div 1000))))"
      by (simp add: group_from_right_def str_nat_thousands [OF big] pad)
    also have "\<dots> = group_from_right (str_nat (n div 1000)) @ [CHR '','', x, y, z]"
      by (simp add: commas_rev_three [OF ne] group_from_right_def)
    finally show ?thesis by (simp add: group3_large [OF big] ih pad)
  qed
qed


lemma format_comma_from_right: "format_comma (int n) = group_from_right (str_nat n)"
  by (simp add: format_comma_def group3_from_right)

section \<open>The merge step\<close>

lemma scan_entries_origin:
  "c \<in> set (scan_entries d es) \<Longrightarrow>
     \<exists>name sz. (name, File sz) \<in> set es
       \<and> c = \<lparr>path = path_join d name, filename = ''/audio/'' @ name, size_bytes = int sz\<rparr>"
  by (induction d es rule: scan_entries.induct) (auto simp: Let_def split: if_splits)

lemma merge_keys_once:
  "count_list (keys (merge_fields e c)) ''file'' = 1
   \<and> count_list (keys (merge_fields e c)) ''length'' = 1"
  using merge_shape [of e c] by (auto simp: keys_def)

text \<open>
  Claim C7. Every record of a run belongs to a regular file of the input directory. Its
  \<open>file\<close> field is the fixed prefix followed by the name of that file, also when the
  extractor's error path had put the path there, and its \<open>length\<close> field is the size
  of the file with a comma between groups of three digits counted from the right
  (\<open>1234567\<close> gives \<open>1,234,567\<close>, \<open>999\<close> gives \<open>999\<close>); each of the two keys occurs
  exactly once.
\<close>

theorem merge_sets_file_and_length:
  "i < length (results (main e)) \<Longrightarrow>
     (\<exists>es name sz. listing e ''audio'' = Some es \<and> (name, File sz) \<in> set es
        \<and> dict_get (results (main e) ! i) ''file'' = Some (PyStr (''/audio/'' @ name))
        \<and> dict_get (results (main e) ! i) ''length'' = Some (PyStr (format_comma (int sz)))
        \<and> format_comma (int sz) = group_from_right (str_nat sz))
     \<and> count_list (keys (results (main e) ! i)) ''file'' = 1
     \<and> count_list (keys (results (main e) ! i)) ''length'' = 1"
proof -
  assume i: "i < length (results (main e))"
  define c where "c = get_mp3_files e ''audio'' ! i"
  have len: "i < length (get_mp3_files e ''audio'')" using i by (simp add: results_main)
  then have r: "results (main e) ! i = merge_fields e c" by (simp add: results_main c_def)
  have mem: "c \<in> set (get_mp3_files e ''audio'')" using len by (simp add: c_def)
  then obtain es where es: "listing e ''audio'' = Some es" and "c \<in> set (scan_entries ''audio'' es)"
    by (cases "listing e ''audio''") (auto simp: get_mp3_files_def)
  from scan_entries_origin [OF this(2)] obtain name sz where
    orig: "(name, File sz) \<in> set es"
      "c = \<lparr>path = path_join ''audio'' name, filename = ''/audio/'' @ name, size_bytes = int sz\<rparr>"
    by blast
  have "dict_get (merge_fields e c) ''file'' = Some (PyStr (''/audio/'' @ name))"
    using merge_file [of e c] by (simp add: orig(2))
  moreover have "dict_get (merge_fields e c) ''length'' = Some (PyStr (format_comma (int sz)))"
    using merge_length [of e c] by (simp add: orig(2))
  ultimately show ?thesis
    unfolding r using es orig(1) merge_keys_once [of e c]
    by (auto simp: format_comma_from_right)
qed

theorem merge_sets_file_and_length_witness:
  "0 < length (results (main sizes_env)) \<and> 1 < length (results (main sizes_env))
   \<and> dict_get (get_title_and_comments sizes_env ''audio/big.mp3'') ''file''
       = Some (PyStr ''audio/big.mp3'')
   \<and> dict_get (results (main sizes_env) ! 0) ''file'' = Some (PyStr ''/audio/big.mp3'')
   \<and> dict_get (results (main sizes_env) ! 0) ''length'' = Some (PyStr ''1,234,567'')
   \<and> dict_get (results (main sizes_env) ! 1) ''file'' = Some (PyStr ''/audio/small.mp3'')
   \<and> dict_get (results (main sizes_env) ! 1) ''length'' = Some (PyStr ''999'')
   \<and> group_from_right ''1234567'' = ''1,234,567''"
proof -
  have cands: "get_mp3_files sizes_env ''audio''
      = [\<lparr>path = ''audio/big.mp3'', filename = ''/audio/big.mp3'', size_bytes = 1234567\<rparr>,
         \<lparr>path = ''audio/small.mp3'', filename = ''/audio/small.mp3'', size_bytes = 999\<rparr>]"
    by (simp add: sizes_env_def sizes_dir_def get_mp3_files_def endswith_lower_mp3
        has_mp3_ext_def path_join_def)
  have res: "results (main sizes_env)
      = [[(''file'', PyStr ''/audio/big.mp3''), (''title'', PyNone), (''comments'', PyNone),
          (''duration'', PyNone), (''error'', PyStr ''can not sync to MPEG frame''),
          (''length'', PyStr ''1,234,567'')],
         [(''file'', PyStr ''/audio/small.mp3''), (''title'', PyNone), (''comments'', PyNone),
          (''duration'', PyNone), (''error'', PyStr ''can not sync to MPEG frame''),
          (''length'', PyStr ''999'')]]"
    unfolding results_main cands
    by (simp add: sizes_env_def cafe_id3_def broken_mp3_def merge_fields_def
        get_title_and_comments_def try_block_def render_simps)
  have len: "0 < length (results (main sizes_env))" "1 < length (results (main sizes_env))"
    by (simp_all add: res)
  have err: "dict_get (get_title_and_comments sizes_env ''audio/big.mp3'') ''file''
       = Some (PyStr ''audio/big.mp3'')"
    by (simp add: sizes_env_def cafe_id3_def broken_mp3_def get_title_and_comments_def
        try_block_def dict_get_def)
  show ?thesis
    using len merge_sets_file_and_length [OF len(1)] merge_sets_file_and_length [OF len(2)] err
    by (simp add: res dict_get_def group_from_right_def)
qed

end
